theory Spec2Isabelle
  imports Complex_Main "HOL-Library.Sublist" "HOL-Library.Stream"
begin

section \<open>Python values\<close>

text \<open>
  A Python \<open>str\<close> is a sequence of Unicode code points, so it is modelled as a list of
  natural numbers. \<open>asc\<close> embeds an ASCII literal; code points outside ASCII (Devanagari,
  Kannada, the rupee sign) are written as numbers, exactly as \<open>src/app.py\<close> spells them.
\<close>

type_synonym pystr = "nat list"

definition asc :: "string \<Rightarrow> pystr" where
  "asc s = map of_char s"

text \<open>\<open>str(n)\<close> for a non-negative integer: its decimal digits, most significant first.\<close>

function str_nat :: "nat \<Rightarrow> pystr" where
  "str_nat n = (if n < 10 then [48 + n] else str_nat (n div 10) @ [48 + n mod 10])"
  by pat_completeness auto
termination
  by (relation "measure (\<lambda>n. n)") auto

declare str_nat.simps [simp del]

text \<open>Reading a decimal string back, used only to show that \<open>str_nat\<close> is injective.\<close>

definition nat_of_str :: "pystr \<Rightarrow> nat" where
  "nat_of_str s = foldl (\<lambda>a c. 10 * a + (c - 48)) 0 s"

section \<open>The credential store and the OTP table\<close>

text \<open>
  One row of the table \<open>users\<close> created by \<open>init_db\<close> (app.py, lines 94-102). The table
  is the list of its rows; \<open>otp_store\<close> (line 128) is the process-wide dictionary from
  username to the code issued last.
\<close>

record user =
  username :: pystr
  password_hash :: pystr
  role :: pystr
  email :: pystr
  mobile :: pystr

record state =
  users :: "user list"
  otp_store :: "pystr \<rightharpoonup> pystr"

text \<open>
  What one request meets outside the handler: whether \<open>get_db_conn\<close> returns a connection,
  whether a statement on it raises, the outcome of \<open>random.randint(100000, 999999)\<close>, what
  the Twilio client does, and the library functions of werkzeug and flask_jwt_extended.
  A library call that raises is the value \<open>None\<close>; a request field is \<open>None\<close> when the
  JSON body does not carry it.
\<close>

datatype sms = No_client | Sent | Sms_raises

record effects =
  connects :: bool
  select_raises :: bool
  update_raises :: bool
  randint :: nat
  twilio_client :: sms
  check_password_hash :: "pystr \<Rightarrow> pystr option \<Rightarrow> bool option"
  generate_password_hash :: "pystr option \<Rightarrow> pystr option"
  create_access_token :: "pystr \<Rightarrow> pystr \<Rightarrow> pystr option"

datatype body = Msg pystr | Access_token pystr

type_synonym response = "nat \<times> body"

text \<open>
  \<open>SELECT * FROM users WHERE username = ?\<close> followed by \<open>fetchone()\<close>. A parameter that
  is \<open>None\<close> is bound as SQL NULL, which equals nothing.
\<close>

fun select_by_username :: "user list \<Rightarrow> pystr option \<Rightarrow> user option" where
  "select_by_username rows None = None"
| "select_by_username rows (Some n) = find (\<lambda>r. username r = n) rows"

text \<open>
  \<open>SELECT * FROM users WHERE username = ? OR email = ? OR mobile = ?\<close> with the
  identifier bound three times, followed by \<open>fetchone()\<close>. Each of the three columns is
  UNIQUE and so has an index; SQLite answers the disjunction through these indexes in the
  order of the terms. The row fetched is therefore the one whose username is the
  identifier; if there is none, the one whose email is; if there is none, the one whose
  mobile is. The order matters when an identifier is the username of one row and the email
  or mobile of another, which \<open>register\<close> does not exclude.
\<close>

fun find_user :: "user list \<Rightarrow> pystr option \<Rightarrow> user option" where
  "find_user rows None = None"
| "find_user rows (Some i) =
     (case find (\<lambda>r. username r = i) rows of
        Some r \<Rightarrow> Some r
      | None \<Rightarrow>
          (case find (\<lambda>r. email r = i) rows of
             Some r \<Rightarrow> Some r
           | None \<Rightarrow> find (\<lambda>r. mobile r = i) rows))"

text \<open>\<open>UPDATE users SET password_hash = ? WHERE username = ?\<close>\<close>

definition update_password_hash :: "pystr \<Rightarrow> pystr \<Rightarrow> user list \<Rightarrow> user list" where
  "update_password_hash h n rows =
     map (\<lambda>r. if username r = n then r\<lparr>password_hash := h\<rparr> else r) rows"

subsection \<open>POST /api/login (app.py, lines 259-284)\<close>

definition bad_credentials :: response where
  "bad_credentials = (401, Msg (asc ''Bad username or password''))"

definition login :: "effects \<Rightarrow> pystr option \<Rightarrow> pystr option \<Rightarrow> state \<Rightarrow> response" where
  "login fx req_username req_password s =
     (if \<not> connects fx then (500, Msg (asc ''Database connection error''))
      else if select_raises fx then (500, Msg (asc ''Login failed''))
      else case select_by_username (users s) req_username of
          None \<Rightarrow> bad_credentials
        | Some usr \<Rightarrow>
            (case check_password_hash fx (password_hash usr) req_password of
               None \<Rightarrow> (500, Msg (asc ''Login failed''))
             | Some False \<Rightarrow> bad_credentials
             | Some True \<Rightarrow>
                 (case create_access_token fx (username usr) (role usr) of
                    None \<Rightarrow> (500, Msg (asc ''Login failed''))
                  | Some tok \<Rightarrow> (200, Access_token tok))))"

subsection \<open>POST /api/send-otp (app.py, lines 324-373)\<close>

definition send_otp :: "effects \<Rightarrow> pystr option \<Rightarrow> state \<Rightarrow> response \<times> state" where
  "send_otp fx identifier s =
     (if \<not> connects fx then ((500, Msg (asc ''Database connection error'')), s)
      else if select_raises fx then ((500, Msg (asc ''Failed to send OTP'')), s)
      else case find_user (users s) identifier of
          None \<Rightarrow> ((404, Msg (asc ''User not found'')), s)
        | Some usr \<Rightarrow>
            (let found_username = username usr;
                 otp = str_nat (randint fx);
                 s' = s\<lparr>otp_store := (otp_store s)(found_username \<mapsto> otp)\<rparr>
             in case twilio_client fx of
                  Sent \<Rightarrow> ((200, Msg (asc ''OTP sent successfully to your mobile.'')), s')
                | Sms_raises \<Rightarrow>
                    ((200, Msg (asc ''Could not send SMS. For development, please check server console for OTP.'')), s')
                | No_client \<Rightarrow>
                    ((200, Msg (asc ''OTP generated. For development, please check server console.'')), s')))"

subsection \<open>POST /api/reset-password (app.py, lines 375-415)\<close>

definition invalid_otp :: response where
  "invalid_otp = (400, Msg (asc ''Invalid or expired OTP''))"

definition password_updated :: response where
  "password_updated = (200, Msg (asc ''Password updated successfully''))"

definition reset_password ::
  "effects \<Rightarrow> pystr option \<Rightarrow> pystr option \<Rightarrow> pystr option \<Rightarrow> state \<Rightarrow> response \<times> state" where
  "reset_password fx identifier otp new_password s =
     (if \<not> connects fx then ((500, Msg (asc ''Database connection error'')), s)
      else if select_raises fx then ((500, Msg (asc ''Failed to reset password'')), s)
      else case find_user (users s) identifier of
          None \<Rightarrow> ((404, Msg (asc ''User not found'')), s)
        | Some usr \<Rightarrow>
            (let user_to_reset = username usr in
             if user_to_reset \<notin> dom (otp_store s) \<or> otp_store s user_to_reset \<noteq> otp
             then (invalid_otp, s)
             else case generate_password_hash fx new_password of
                 None \<Rightarrow> ((500, Msg (asc ''Failed to reset password'')), s)
               | Some new_hashed_password \<Rightarrow>
                   if update_raises fx then ((500, Msg (asc ''Failed to reset password'')), s)
                   else (password_updated,
                         s\<lparr>users := update_password_hash new_hashed_password user_to_reset (users s),
                           otp_store := (if user_to_reset \<in> dom (otp_store s)
                                         then (otp_store s)(user_to_reset := None)
                                         else otp_store s)\<rparr>)))"

section \<open>Strings: case mapping, substrings, formatting\<close>

text \<open>
  \<open>str.lower\<close> and \<open>str.capitalize\<close>. On ASCII letters they shift the case; Devanagari
  (U+0900 to U+097F) and Kannada (U+0C80 to U+0CFF), the scripts of the keyword tables, have
  no case. A string made of such code points only is mapped here; for any other string the
  result is what Python's Unicode tables give, taken as the parameters \<open>lower_other\<close> and
  \<open>capitalize_other\<close>.
\<close>

definition caseless :: "nat \<Rightarrow> bool" where
  "caseless c = ((2304 \<le> c \<and> c \<le> 2431) \<or> (3200 \<le> c \<and> c \<le> 3327))"

definition plain :: "pystr \<Rightarrow> bool" where
  "plain s = list_all (\<lambda>c. c < 128 \<or> caseless c) s"

definition ascii_lower :: "nat \<Rightarrow> nat" where
  "ascii_lower c = (if 65 \<le> c \<and> c \<le> 90 then c + 32 else c)"

definition ascii_upper :: "nat \<Rightarrow> nat" where
  "ascii_upper c = (if 97 \<le> c \<and> c \<le> 122 then c - 32 else c)"

record unicode =
  lower_other :: "pystr \<Rightarrow> pystr"
  capitalize_other :: "pystr \<Rightarrow> pystr"

definition py_lower :: "unicode \<Rightarrow> pystr \<Rightarrow> pystr" where
  "py_lower uc s = (if plain s then map ascii_lower s else lower_other uc s)"

definition py_capitalize :: "unicode \<Rightarrow> pystr \<Rightarrow> pystr" where
  "py_capitalize uc s =
     (if plain s then (case s of [] \<Rightarrow> [] | c # cs \<Rightarrow> ascii_upper c # map ascii_lower cs)
      else capitalize_other uc s)"

text \<open>\<open>k in s\<close> on strings: \<open>k\<close> occurs in \<open>s\<close> as a contiguous run.\<close>

fun py_in :: "pystr \<Rightarrow> pystr \<Rightarrow> bool" where
  "py_in k [] = (k = [])"
| "py_in k (c # s) = (prefix k (c # s) \<or> py_in k s)"

text \<open>\<open>any(k in user_query for k in keywords)\<close>\<close>

definition any_in :: "pystr list \<Rightarrow> pystr \<Rightarrow> bool" where
  "any_in keywords user_query = list_ex (\<lambda>k. py_in k user_query) keywords"

text \<open>
  \<open>template.format(**kw)\<close> for the templates of this program: literal text and fields
  \<open>{name}\<close>. The scan carries the field name read so far (\<open>None\<close> outside a field). An
  unknown name is a \<open>KeyError\<close>, an unbalanced brace a \<open>ValueError\<close>. Doubled braces,
  conversions and format specifications do not occur in the templates and are not
  modelled.
\<close>

datatype error = KeyError | ValueError

fun format_scan :: "(pystr \<times> pystr) list \<Rightarrow> pystr option \<Rightarrow> pystr \<Rightarrow> error + pystr" where
  "format_scan kw None [] = Inr []"
| "format_scan kw (Some name) [] = Inl ValueError"
| "format_scan kw None (c # s) =
     (if c = 123 then format_scan kw (Some []) s
      else if c = 125 then Inl ValueError
      else map_sum id ((#) c) (format_scan kw None s))"
| "format_scan kw (Some name) (c # s) =
     (if c = 125
      then (case map_of kw name of
              None \<Rightarrow> Inl KeyError
            | Some v \<Rightarrow> map_sum id ((@) v) (format_scan kw None s))
      else format_scan kw (Some (name @ [c])) s)"

definition py_format :: "pystr \<Rightarrow> (pystr \<times> pystr) list \<Rightarrow> error + pystr" where
  "py_format template kw = format_scan kw None template"

text \<open>
  \<open>f"{price:,.2f}"\<close> for an integer \<open>price\<close>: the sign, the digits in groups of three
  separated by commas, and two decimals, which are zero for an integer.
\<close>

definition three_digits :: "nat \<Rightarrow> pystr" where
  "three_digits n = [48 + n div 100 mod 10, 48 + n div 10 mod 10, 48 + n mod 10]"

function group_thousands :: "nat \<Rightarrow> pystr" where
  "group_thousands n =
     (if n < 1000 then str_nat n else group_thousands (n div 1000) @ [44] @ three_digits (n mod 1000))"
  by pat_completeness auto
termination
  by (relation "measure (\<lambda>n. n)") auto

declare group_thousands.simps [simp del]

definition format_comma_2f :: "int \<Rightarrow> pystr" where
  "format_comma_2f p =
     (if p < 0 then [45] else []) @ group_thousands (nat \<bar>p\<bar>) @ asc ''.00''"

section \<open>The simulation engine\<close>

text \<open>
  Python floats are idealised as real numbers. The random source is the stream of the
  values \<open>random.random()\<close> returns, each in the unit interval;
  \<open>random.uniform(a, b)\<close> is \<open>a + (b - a) * random()\<close>. \<open>round\<close> on a float rounds to
  the nearest integer, a half to the even neighbour.
\<close>

definition uniform :: "real \<Rightarrow> real \<Rightarrow> real \<Rightarrow> real" where
  "uniform a b x = a + (b - a) * x"

definition py_round :: "real \<Rightarrow> int" where
  "py_round x =
     (let f = \<lfloor>x\<rfloor>; d = x - of_int f
      in if d < 1/2 then f else if 1/2 < d then f + 1 else if even f then f else f + 1)"

subsection \<open>get_price_prediction (app.py, lines 157-173)\<close>

definition base_prices :: "(pystr \<times> int) list" where
  "base_prices =
     [(asc ''wheat'', 2200), (asc ''rice'', 3000), (asc ''cotton'', 6000), (asc ''onion'', 1700),
      (asc ''potato'', 1500), (asc ''maize'', 1800), (asc ''tomato'', 1200),
      (asc ''banana'', 1800)]"

definition base_price_of :: "unicode \<Rightarrow> pystr \<Rightarrow> int" where
  "base_price_of uc commodity =
     (case map_of base_prices (py_lower uc commodity) of Some p \<Rightarrow> p | None \<Rightarrow> 2500)"

record price_report =
  average_price :: int
  low_price :: int
  high_price :: int

definition get_price_prediction ::
  "unicode \<Rightarrow> pystr \<Rightarrow> pystr \<Rightarrow> int \<Rightarrow> real stream \<Rightarrow> price_report \<times> real stream" where
  "get_price_prediction uc commodity market days_ahead rnd =
     (let base_price = base_price_of uc commodity;
          avg0 = real_of_int base_price +
                   real_of_int days_ahead * uniform (-5) 10 (shd rnd);
          avg1 = avg0 * (if py_lower uc market \<in> set [asc ''mumbai'', asc ''delhi'']
                         then 1.05 else 1.01);
          avg_price = py_round avg1;
          low = py_round (real_of_int avg_price * (1 - uniform 0.05 0.15 (shd (stl rnd))));
          high = py_round (real_of_int avg_price * (1 + uniform 0.05 0.15 (shd (stl (stl rnd)))))
      in (\<lparr>average_price = avg_price, low_price = low, high_price = high\<rparr>,
          stl (stl (stl rnd))))"

section \<open>The chatbot\<close>

text \<open>
  \<open>handle_chat\<close> and \<open>handle_heatmap_data\<close> run behind \<open>jwt_required()\<close>; the model
  starts where the handler body does, for a request whose token was accepted.

  The tables of app.py, lines 131-154. A dictionary of responses has the same six keys in
  every language, so it is a function on the type of those keys; \<open>chat_responses\<close> and
  \<open>commodity_keywords\<close> keep the order of the source, which decides which entry wins.
\<close>

datatype key = Price | Weather | Recommend | Greeting | Default | Price_detail

fun responses_en :: "key \<Rightarrow> pystr" where
  "responses_en Price =
     asc ''The predicted price is showing an upward trend due to market demand.''"
| "responses_en Weather =
     asc ''The current weather forecast is favorable for this crop.''"
| "responses_en Recommend =
     asc ''Based on your conditions, Wheat is a good option.''"
| "responses_en Greeting =
     asc ''Hello! How can I assist you with AgroBert today?''"
| "responses_en Default =
     asc ''I can help with price predictions, weather impact, and crop recommendations.''"
| "responses_en Price_detail =
     asc ''The current simulated price for {commodity} in {market} is around '' @ [8377] @
     asc ''{price}/quintal. The trend is positive.''"

fun responses_hi :: "key \<Rightarrow> pystr" where
  "responses_hi Price =
     [2348, 2366, 2332, 2366, 2352] @ asc '' '' @ [2325, 2368] @ asc '' '' @
     [2350, 2366, 2306, 2327] @ asc '' '' @ [2325, 2375] @ asc '' '' @ [2325, 2366, 2352, 2339] @
     asc '' '' @ [2309, 2344, 2369, 2350, 2366, 2344, 2367, 2340] @ asc '' '' @
     [2325, 2368, 2350, 2340] @ asc '' '' @ [2350, 2375, 2306] @ asc '' '' @
     [2340, 2375, 2332, 2368] @ asc '' '' @ [2325, 2366] @ asc '' '' @ [2352, 2369, 2326] @
     asc '' '' @ [2342, 2367, 2326] @ asc '' '' @ [2352, 2361, 2366] @ asc '' '' @
     [2361, 2376, 2404]"
| "responses_hi Weather =
     [2357, 2352, 2381, 2340, 2350, 2366, 2344] @ asc '' '' @ [2350, 2380, 2360, 2350] @ asc '' '' @
     [2325, 2366] @ asc '' '' @ [2346, 2370, 2352, 2381, 2357, 2366, 2344, 2369, 2350, 2366, 2344] @
     asc '' '' @ [2311, 2360] @ asc '' '' @ [2347, 2360, 2354] @ asc '' '' @ [2325, 2375] @
     asc '' '' @ [2354, 2367, 2319] @ asc '' '' @ [2309, 2344, 2369, 2325, 2370, 2354] @ asc '' '' @
     [2361, 2376, 2404]"
| "responses_hi Recommend =
     [2310, 2346, 2325, 2368] @ asc '' '' @
     [2346, 2352, 2367, 2360, 2381, 2341, 2367, 2340, 2367, 2351, 2379, 2306] @ asc '' '' @
     [2325, 2375] @ asc '' '' @ [2310, 2343, 2366, 2352] @ asc '' '' @ [2346, 2352] @ asc '', '' @
     [2327, 2375, 2361, 2370, 2306] @ asc '' '' @ [2319, 2325] @ asc '' '' @
     [2309, 2330, 2381, 2331, 2366] @ asc '' '' @ [2357, 2367, 2325, 2354, 2381, 2346] @ asc '' '' @
     [2361, 2376, 2404]"
| "responses_hi Greeting =
     [2344, 2350, 2360, 2381, 2340, 2375] @ asc ''! '' @ [2350, 2376, 2306] @ asc '' '' @
     [2310, 2332] @ asc '' '' @ [2319, 2327, 2381, 2352, 2379, 2348, 2352, 2381, 2335] @ asc '' '' @
     [2350, 2375, 2306] @ asc '' '' @ [2310, 2346, 2325, 2368] @ asc '' '' @
     [2325, 2376, 2360, 2375] @ asc '' '' @ [2360, 2361, 2366, 2351, 2340, 2366] @ asc '' '' @
     [2325, 2352] @ asc '' '' @ [2360, 2325, 2340, 2366] @ asc '' '' @ [2361, 2370, 2305] @
     asc ''?''"
| "responses_hi Default =
     [2350, 2376, 2306] @ asc '' '' @ [2350, 2370, 2354, 2381, 2351] @ asc '' '' @
     [2349, 2357, 2367, 2359, 2381, 2351, 2357, 2366, 2339, 2368] @ asc '', '' @
     [2350, 2380, 2360, 2350] @ asc '' '' @ [2325, 2375] @ asc '' '' @
     [2346, 2381, 2352, 2349, 2366, 2357] @ asc '' '' @ [2324, 2352] @ asc '' '' @
     [2347, 2360, 2354] @ asc '' '' @ [2325, 2368] @ asc '' '' @
     [2360, 2367, 2347, 2366, 2352, 2367, 2358, 2379, 2306] @ asc '' '' @ [2350, 2375, 2306] @
     asc '' '' @ [2350, 2342, 2342] @ asc '' '' @ [2325, 2352] @ asc '' '' @
     [2360, 2325, 2340, 2366] @ asc '' '' @ [2361, 2370, 2305, 2404]"
| "responses_hi Price_detail =
     asc ''{market} '' @ [2350, 2375, 2306] @ asc '' {commodity} '' @ [2325, 2366] @ asc '' '' @
     [2357, 2352, 2381, 2340, 2350, 2366, 2344] @ asc '' '' @
     [2360, 2367, 2350, 2381, 2351, 2369, 2354, 2375, 2335, 2375, 2337] @ asc '' '' @
     [2350, 2370, 2354, 2381, 2351] @ asc '' '' @ [2354, 2327, 2349, 2327] @ asc '' '' @ [8377] @
     asc ''{price}/'' @ [2325, 2381, 2357, 2367, 2306, 2335, 2354] @ asc '' '' @
     [2361, 2376, 2404] @ asc '' '' @ [2346, 2381, 2352, 2357, 2371, 2340, 2381, 2340, 2367] @
     asc '' '' @ [2360, 2325, 2366, 2352, 2366, 2340, 2381, 2350, 2325] @ asc '' '' @
     [2361, 2376, 2404]"

fun responses_kn :: "key \<Rightarrow> pystr" where
  "responses_kn Price =
     [3246, 3262, 3248, 3265, 3221, 3231, 3277, 3231, 3270, 3247] @ asc '' '' @
     [3244, 3271, 3233, 3263, 3221, 3270, 3247, 3263, 3202, 3238, 3262, 3223, 3263] @ asc '' '' @
     [3210, 3257, 3263, 3256, 3250, 3262, 3238] @ asc '' '' @ [3244, 3270, 3250, 3270, 3247, 3265] @
     asc '' '' @ [3215, 3248, 3265, 3246, 3265, 3222, 3253, 3262, 3223, 3263, 3238, 3270] @
     asc ''.''"
| "responses_kn Weather =
     [3242, 3277, 3248, 3256, 3277, 3236, 3265, 3236] @ asc '' '' @
     [3257, 3253, 3262, 3246, 3262, 3240] @ asc '' '' @
     [3246, 3265, 3240, 3277, 3256, 3266, 3226, 3240, 3270, 3247, 3265] @ asc '' '' @ [3208] @
     asc '' '' @ [3244, 3270, 3251, 3270, 3223, 3270] @ asc '' '' @
     [3205, 3240, 3265, 3221, 3266, 3250, 3221, 3248, 3253, 3262, 3223, 3263, 3238, 3270] @
     asc ''.''"
| "responses_kn Recommend =
     [3240, 3263, 3246, 3277, 3246] @ asc '' '' @
     [3242, 3248, 3263, 3256, 3277, 3237, 3263, 3236, 3263, 3223, 3251] @ asc '' '' @
     [3206, 3239, 3262, 3248, 3238] @ asc '' '' @ [3246, 3271, 3250, 3270] @ asc '', '' @
     [3223, 3275, 3239, 3263] @ asc '' '' @ [3209, 3236, 3277, 3236, 3246] @ asc '' '' @
     [3206, 3247, 3277, 3221, 3270, 3247, 3262, 3223, 3263, 3238, 3270] @ asc ''.''"
| "responses_kn Greeting =
     [3240, 3246, 3256, 3277, 3221, 3262, 3248] @ asc ''! '' @ [3207, 3202, 3238, 3265] @
     asc '' '' @ [3240, 3262, 3240, 3265] @ asc '' '' @ [3240, 3263, 3246, 3223, 3270] @ asc '' '' @
     [3206, 3223, 3277, 3248, 3275, 3244, 3248, 3277, 3231, 3277, 8204, 3240, 3250, 3277, 3250,
     3263] @
     asc '' '' @ [3257, 3271, 3223, 3270] @ asc '' '' @ [3256, 3257, 3262, 3247] @ asc '' '' @
     [3246, 3262, 3233, 3244, 3257, 3265, 3238, 3265] @ asc ''?''"
| "responses_kn Default =
     [3240, 3262, 3240, 3265] @ asc '' '' @ [3244, 3270, 3250, 3270] @ asc '' '' @
     [3246, 3265, 3240, 3277, 3256, 3266, 3226, 3240, 3270, 3223, 3251, 3265] @ asc '', '' @
     [3257, 3253, 3262, 3246, 3262, 3240, 3238] @ asc '' '' @ [3242, 3277, 3248, 3245, 3262, 3253] @
     asc '' '' @ [3246, 3236, 3277, 3236, 3265] @ asc '' '' @ [3244, 3270, 3251, 3270] @ asc '' '' @
     [3254, 3263, 3243, 3262, 3248, 3256, 3265, 3223, 3251, 3274, 3202, 3238, 3263, 3223, 3270] @
     asc '' '' @ [3256, 3257, 3262, 3247] @ asc '' '' @
     [3246, 3262, 3233, 3244, 3257, 3265, 3238, 3265] @ asc ''.''"
| "responses_kn Price_detail =
     asc ''{market} '' @ [3240, 3250, 3277, 3250, 3263] @ asc '' {commodity} '' @
     [3223, 3262, 3223, 3263] @ asc '' '' @ [3242, 3277, 3248, 3256, 3277, 3236, 3265, 3236] @
     asc '' '' @ [3256, 3263, 3246, 3277, 3247, 3265, 3250, 3271, 3231, 3270, 3233, 3277] @
     asc '' '' @ [3244, 3270, 3250, 3270] @ asc '' '' @ [3256, 3265, 3246, 3262, 3248, 3265] @
     asc '' '' @ [8377] @ asc ''{price}/'' @
     [3221, 3277, 3253, 3263, 3202, 3231, 3262, 3250, 3277] @ asc '' '' @
     [3206, 3223, 3263, 3238, 3270] @ asc ''. '' @
     [3242, 3277, 3248, 3253, 3267, 3236, 3277, 3236, 3263] @ asc '' '' @
     [3239, 3240, 3262, 3236, 3277, 3246, 3221, 3253, 3262, 3223, 3263, 3238, 3270] @ asc ''.''"

declare responses_en.simps [simp del] responses_hi.simps [simp del] responses_kn.simps [simp del]

definition chat_responses :: "(pystr \<times> (key \<Rightarrow> pystr)) list" where
  "chat_responses =
     [(asc ''en'', responses_en), (asc ''hi'', responses_hi), (asc ''kn'', responses_kn)]"

definition commodity_keywords :: "(pystr \<times> pystr list) list" where
  "commodity_keywords =
     [(asc ''wheat'', [asc ''wheat'', [2327, 2375, 2361, 2370, 2306], [3223, 3275, 3239, 3263]]),
      (asc ''rice'', [asc ''rice'', [2330, 2366, 2357, 2354], [3205, 3221, 3277, 3221, 3263]]),
      (asc ''cotton'', [asc ''cotton'', [2325, 2346, 2366, 2360], [3257, 3236, 3277, 3236, 3263]]),
      (asc ''onion'', [asc ''onion'', [2346, 2381, 2351, 2366, 2332],
         [3208, 3248, 3265, 3251, 3277, 3251, 3263]]),
      (asc ''potato'', [asc ''potato'', [2310, 2354, 2370],
         [3206, 3250, 3266, 3223, 3233, 3277, 3233, 3270]]),
      (asc ''tomato'', [asc ''tomato'', [2335, 2350, 2366, 2335, 2352],
         [3231, 3274, 3246, 3270, 3231, 3274]])]"

definition MARKET_KEYWORDS :: "pystr list" where
  "MARKET_KEYWORDS =
     [asc ''delhi'', asc ''mumbai'', asc ''bengaluru'', asc ''kolkata'', asc ''chennai'',
      asc ''pune'', asc ''jaipur'', asc ''davanagere'', asc ''lucknow'', asc ''kanpur'',
      asc ''nagpur'', asc ''indore'', asc ''thane'', asc ''bhopal'', asc ''patna'',
      asc ''shivamogga'', asc ''ludhiana'', asc ''agra'', asc ''nashik'', asc ''vadodara'',
      asc ''meerut'', asc ''rajkot'', asc ''varanasi'', asc ''hubali'', asc ''amritsar'',
      asc ''allahabad'', asc ''jodhpur'', asc ''kochi'', asc ''mysuru'', asc ''hyderabad'',
      asc ''bhubaneswar'']"

text \<open>The keyword lists written inline in \<open>handle_chat\<close> (lines 474, 509, 512, 515).\<close>

definition greeting_keywords :: "pystr list" where
  "greeting_keywords =
     [asc ''hello'', asc ''hi'', [3240, 3246, 3256, 3277, 3221, 3262, 3248],
      [2344, 2350, 2360, 2381, 2340, 2375]]"

definition price_keywords :: "pystr list" where
  "price_keywords = [asc ''price'', [3244, 3270, 3250, 3270], [2342, 2366, 2350]]"

definition weather_keywords :: "pystr list" where
  "weather_keywords =
     [asc ''weather'', [3257, 3253, 3262, 3246, 3262, 3240], [2350, 2380, 2360, 2350]]"

definition recommend_keywords :: "pystr list" where
  "recommend_keywords =
     [asc ''recommend'', [3254, 3263, 3243, 3262, 3248, 3256, 3265],
      [2360, 2369, 2333, 2366, 2357]]"

text \<open>The generative-text collaborator: whether it was configured at start-up, and what
  the calls inside the \<open>try\<close> block give for a system prompt, the greeting that seeds the
  chat and the query; \<open>None\<close> when any of them raises.\<close>

record gemini =
  GEMINI_ENABLED :: bool
  send_message :: "pystr \<Rightarrow> pystr \<Rightarrow> pystr \<Rightarrow> pystr option"

subsection \<open>handle_chat (app.py, lines 464-536)\<close>

text \<open>\<open>chat_responses.get(lang, chat_responses['en'])\<close>\<close>

definition responses_for :: "pystr \<Rightarrow> key \<Rightarrow> pystr" where
  "responses_for lang = (case map_of chat_responses lang of Some r \<Rightarrow> r | None \<Rightarrow> responses_en)"

text \<open>The first commodity one of whose keywords occurs in the query (lines 482-485).\<close>

definition find_commodity :: "pystr \<Rightarrow> pystr option" where
  "find_commodity user_query =
     map_option fst (find (\<lambda>(commodity_en, keywords). any_in keywords user_query)
        commodity_keywords)"

text \<open>The first market that occurs in the query, capitalized; Delhi otherwise (lines 480,
  487-490).\<close>

definition find_market :: "unicode \<Rightarrow> pystr \<Rightarrow> pystr" where
  "find_market uc user_query =
     (case find (\<lambda>market. py_in market user_query) MARKET_KEYWORDS of
        None \<Rightarrow> asc ''Delhi''
      | Some market \<Rightarrow> py_capitalize uc market)"

text \<open>
  Lines 471-517: the rules, in the order of the source. The result is the response text
  and the flag \<open>rule_matched\<close>, or the exception a dictionary lookup or \<open>format\<close> raises.
\<close>

definition chat_rules :: "unicode \<Rightarrow> pystr \<Rightarrow> pystr \<Rightarrow> real stream \<Rightarrow> error + pystr \<times> bool" where
  "chat_rules uc user_query lang rnd =
     (let responses = responses_for lang in
      if any_in greeting_keywords user_query then Inr (responses Greeting, True)
      else
        let found_commodity = find_commodity user_query;
            found_market = find_market uc user_query
        in case found_commodity of
             Some commodity \<Rightarrow>
               (let price_report = fst (get_price_prediction uc commodity found_market 7 rnd);
                    price = average_price price_report;
                    lang_commodity_index =
                      (if lang = asc ''kn'' then 2 else if lang = asc ''hi'' then 1
                       else (- 1 :: int))
                in case map_of commodity_keywords commodity of
                     None \<Rightarrow> Inl KeyError
                   | Some keywords \<Rightarrow>
                       (let display_commodity =
                              (if lang_commodity_index \<noteq> - 1 \<and>
                                  lang_commodity_index < int (length keywords)
                               then py_capitalize uc (keywords ! nat lang_commodity_index)
                               else py_capitalize uc commodity)
                        in map_sum id (\<lambda>text. (text, True))
                             (py_format (responses Price_detail)
                                [(asc ''commodity'', display_commodity),
                                 (asc ''market'', found_market),
                                 (asc ''price'', format_comma_2f price)])))
           | None \<Rightarrow>
               if any_in price_keywords user_query then Inr (responses Price, True)
               else if any_in weather_keywords user_query then Inr (responses Weather, True)
               else if any_in recommend_keywords user_query then Inr (responses Recommend, True)
               else Inr (responses Default, False))"

definition system_prompt :: "pystr \<Rightarrow> pystr" where
  "system_prompt lang =
     asc ''You are AgriBERT, a helpful agricultural assistant. Answer questions related to farming, crop prices, weather, and market analysis in India. Please respond in this language: '' @
     lang @ asc ''. Be concise and helpful.''"

text \<open>
  The handler: the request fields \<open>query\<close> and \<open>lang\<close> with their defaults (\<open>query_of\<close>,
  \<open>lang_of\<close>; \<open>None\<close> is a field the body does not carry), the rules,
  then the collaborator when no rule matched and it is enabled (lines 520-534). The
  result is the status and the \<open>response\<close> field of the JSON body; an exception that
  leaves the handler is \<open>Inl\<close>.
\<close>

definition query_of :: "pystr option \<Rightarrow> pystr" where
  "query_of req_query = (case req_query of None \<Rightarrow> [] | Some q \<Rightarrow> q)"

definition lang_of :: "pystr option \<Rightarrow> pystr" where
  "lang_of req_lang = (case req_lang of None \<Rightarrow> asc ''en'' | Some l \<Rightarrow> l)"

definition handle_chat ::
  "unicode \<Rightarrow> gemini \<Rightarrow> pystr option \<Rightarrow> pystr option \<Rightarrow> real stream \<Rightarrow> error + nat \<times> pystr" where
  "handle_chat uc gm req_query req_lang rnd =
     (let user_query = py_lower uc (query_of req_query);
          lang = lang_of req_lang;
          responses = responses_for lang
      in case chat_rules uc user_query lang rnd of
           Inl e \<Rightarrow> Inl e
         | Inr (response_text, rule_matched) \<Rightarrow>
             if \<not> rule_matched \<and> GEMINI_ENABLED gm
             then (case send_message gm (system_prompt lang) (responses Greeting) user_query of
                     Some text \<Rightarrow> Inr (200, text)
                   | None \<Rightarrow> Inr (200, response_text))
             else Inr (200, response_text))"

section \<open>GET /api/heatmap-data (app.py, lines 594-617)\<close>

definition states :: "pystr list" where
  "states =
     [asc ''Andhra Pradesh'', asc ''Arunachal Pradesh'', asc ''Assam'', asc ''Bihar'',
      asc ''Chhattisgarh'', asc ''Goa'', asc ''Gujarat'', asc ''Haryana'',
      asc ''Himachal Pradesh'', asc ''Jharkhand'', asc ''Karnataka'', asc ''Kerala'',
      asc ''Madhya Pradesh'', asc ''Maharashtra'', asc ''Manipur'', asc ''Meghalaya'',
      asc ''Mizoram'', asc ''Nagaland'', asc ''Odisha'', asc ''Punjab'', asc ''Rajasthan'',
      asc ''Sikkim'', asc ''Tamil Nadu'', asc ''Telangana'', asc ''Tripura'',
      asc ''Uttar Pradesh'', asc ''Uttarakhand'', asc ''West Bengal'', asc ''Jammu and Kashmir'',
      asc ''Ladakh'', asc ''Delhi'', asc ''Puducherry'', asc ''Andaman and Nicobar Islands'',
      asc ''Chandigarh'', asc ''Dadra and Nagar Haveli and Daman and Diu'']"

text \<open>
  The query parameter \<open>commodity\<close> defaults to \<open>unknown\<close>. The base of the heatmap is the
  average price \<open>get_price_prediction\<close> gives for Delhi at horizon 0; each state then takes
  one further draw.
\<close>

definition commodity_of :: "pystr option \<Rightarrow> pystr" where
  "commodity_of req_commodity = (case req_commodity of None \<Rightarrow> asc ''unknown'' | Some c \<Rightarrow> c)"

definition handle_heatmap_data :: "unicode \<Rightarrow> pystr option \<Rightarrow> real stream \<Rightarrow> (pystr \<times> int) list" where
  "handle_heatmap_data uc req_commodity rnd =
     (let commodity = commodity_of req_commodity;
          (price_report, rnd') = get_price_prediction uc commodity (asc ''Delhi'') 0 rnd;
          base_price = average_price price_report
      in map (\<lambda>(state, x). (state, py_round (real_of_int base_price * uniform 0.85 1.15 x)))
           (zip states (stake (length states) rnd')))"

section \<open>A concrete world for the examples\<close>

text \<open>
  The two rows \<open>init_db\<close> inserts into an empty table (app.py, lines 104-118), with the
  password hashes left open, and stand-ins for the library functions: a hash that only
  prefixes the password, a request during which the storage answers, a table with no code
  issued and one with a code on file for \<open>farmer\<close>.
\<close>

definition seed_users :: "pystr \<Rightarrow> pystr \<Rightarrow> user list" where
  "seed_users h_farmer h_analyst =
     [\<lparr>username = asc ''farmer'', password_hash = h_farmer, role = asc ''farmer'',
       email = asc ''farmer@example.com'', mobile = asc ''+919876543210''\<rparr>,
      \<lparr>username = asc ''analyst'', password_hash = h_analyst, role = asc ''analyst'',
       email = asc ''analyst@example.com'', mobile = asc ''+919876543211''\<rparr>]"

definition plain_hash :: "pystr option \<Rightarrow> pystr option" where
  "plain_hash p = map_option (\<lambda>q. asc ''plain$'' @ q) p"

definition plain_check :: "pystr \<Rightarrow> pystr option \<Rightarrow> bool option" where
  "plain_check h p = map_option (\<lambda>q. h = asc ''plain$'' @ q) p"

definition calm :: "nat \<Rightarrow> sms \<Rightarrow> effects" where
  "calm n t = \<lparr>connects = True, select_raises = False, update_raises = False, randint = n,
     twilio_client = t, check_password_hash = plain_check,
     generate_password_hash = plain_hash,
     create_access_token = (\<lambda>n r. Some (n @ asc ''.'' @ r))\<rparr>"

definition seeded :: state where
  "seeded = \<lparr>users = seed_users (asc ''plain$farmer123'') (asc ''plain$analyst123''),
     otp_store = Map.empty\<rparr>"

definition farmer :: user where
  "farmer = \<lparr>username = asc ''farmer'', password_hash = asc ''plain$farmer123'',
     role = asc ''farmer'', email = asc ''farmer@example.com'', mobile = asc ''+919876543210''\<rparr>"

definition issued :: state where
  "issued = seeded\<lparr>otp_store := [asc ''farmer'' \<mapsto> asc ''123456'']\<rparr>"

text \<open>
  A table \<open>register\<close> can produce from the seeded one: a third user whose username is
  the mobile number of \<open>farmer\<close> and whose email is the word farmer.
\<close>

definition shadow :: user where
  "shadow = \<lparr>username = asc ''+919876543210'', password_hash = asc ''plain$shadow123'',
     role = asc ''farmer'', email = asc ''farmer'', mobile = asc ''+910000000000''\<rparr>"

definition crossed :: state where
  "crossed = seeded\<lparr>users := users seeded @ [shadow]\<rparr>"

text \<open>
  For the chatbot and the heatmap: case tables that leave other scripts alone, a
  collaborator that is not configured, and one that is configured and raises.
\<close>

definition latin :: unicode where
  "latin = \<lparr>lower_other = map ascii_lower, capitalize_other = map ascii_lower\<rparr>"

definition gemini_off :: gemini where
  "gemini_off = \<lparr>GEMINI_ENABLED = False, send_message = (\<lambda>p g q. None)\<rparr>"

definition gemini_down :: gemini where
  "gemini_down = \<lparr>GEMINI_ENABLED = True, send_message = (\<lambda>p g q. None)\<rparr>"

definition namaste :: pystr where
  "namaste = [2344, 2350, 2360, 2381, 2340, 2375]"

section \<open>Facts about the store\<close>

lemma nat_of_str_snoc: "nat_of_str (s @ [c]) = 10 * nat_of_str s + (c - 48)"
  by (simp add: nat_of_str_def)

lemma nat_of_str_str_nat: "nat_of_str (str_nat n) = n"
proof (induction n rule: str_nat.induct)
  case (1 n)
  show ?case
  proof (cases "n < 10")
    case True
    then show ?thesis
      by (subst str_nat.simps) (simp add: nat_of_str_def)
  next
    case False
    with "1" have "nat_of_str (str_nat (n div 10)) = n div 10"
      by simp
    with False show ?thesis
      by (subst str_nat.simps) (simp add: nat_of_str_snoc)
  qed
qed

lemma str_nat_inject: "str_nat m = str_nat n \<longleftrightarrow> m = n"
  by (metis nat_of_str_str_nat)

lemma find_update_password_hash:
  assumes "\<And>r. P (r\<lparr>password_hash := h\<rparr>) = P r"
  shows "find P (update_password_hash h n rows) =
   map_option (\<lambda>r. if username r = n then r\<lparr>password_hash := h\<rparr> else r) (find P rows)"
  by (induction rows) (simp_all add: update_password_hash_def assms)

lemma find_user_update_password_hash:
  assumes "find_user rows ident = Some u"
  shows "find_user (update_password_hash h (username u) rows) ident =
    Some (u\<lparr>password_hash := h\<rparr>)"
proof (cases ident)
  case None
  with assms show ?thesis
    by simp
next
  case (Some i)
  have by_username: "find (\<lambda>r. username r = i) (update_password_hash h n rows) =
      map_option (\<lambda>r. if username r = n then r\<lparr>password_hash := h\<rparr> else r)
        (find (\<lambda>r. username r = i) rows)" for n
    by (rule find_update_password_hash) simp
  have by_email: "find (\<lambda>r. email r = i) (update_password_hash h n rows) =
      map_option (\<lambda>r. if username r = n then r\<lparr>password_hash := h\<rparr> else r)
        (find (\<lambda>r. email r = i) rows)" for n
    by (rule find_update_password_hash) simp
  have by_mobile: "find (\<lambda>r. mobile r = i) (update_password_hash h n rows) =
      map_option (\<lambda>r. if username r = n then r\<lparr>password_hash := h\<rparr> else r)
        (find (\<lambda>r. mobile r = i) rows)" for n
    by (rule find_update_password_hash) simp
  from assms Some show ?thesis
    by (auto simp add: by_username by_email by_mobile split: option.splits)
qed

section \<open>The password-reset protocol\<close>

lemmas demo_defs = calm_def seeded_def seed_users_def farmer_def plain_hash_def plain_check_def
  asc_def

text \<open>
  Resolution follows the columns, not the rows: in the table \<open>crossed\<close> the mobile
  number of \<open>farmer\<close> is also a username, and it resolves to the row that has it as
  username, although the row of \<open>farmer\<close> comes first; the word farmer, username of one
  row and email of another, resolves to \<open>farmer\<close>.
\<close>

lemma find_user_crossed:
  "find_user (users crossed) (Some (asc ''+919876543210'')) = Some shadow \<and>
   find_user (users crossed) (Some (asc ''farmer'')) = Some farmer \<and>
   find_user (users crossed) (Some (asc ''farmer@example.com'')) = Some farmer \<and>
   find_user (users seeded) (Some (asc ''+919876543210'')) = Some farmer"
  by (simp add: crossed_def shadow_def demo_defs)

text \<open>
  So in \<open>crossed\<close> a code requested through the mobile number of \<open>farmer\<close> is filed
  under the row named by that number: a reset through the username farmer is refused with
  400, a reset through the number is accepted.
\<close>

lemma send_otp_crossed:
  "otp_store (snd (send_otp (calm 123456 No_client) (Some (asc ''+919876543210'')) crossed))
     (asc ''+919876543210'') = Some (str_nat 123456) \<and>
   otp_store (snd (send_otp (calm 123456 No_client) (Some (asc ''+919876543210'')) crossed))
     (asc ''farmer'') = None \<and>
   fst (reset_password (calm 0 No_client) (Some (asc ''farmer'')) (Some (str_nat 123456))
     (Some (asc ''s3cret''))
     (snd (send_otp (calm 123456 No_client) (Some (asc ''+919876543210'')) crossed))) =
     (400, Msg (asc ''Invalid or expired OTP'')) \<and>
   fst (reset_password (calm 0 No_client) (Some (asc ''+919876543210'')) (Some (str_nat 123456))
     (Some (asc ''s3cret''))
     (snd (send_otp (calm 123456 No_client) (Some (asc ''+919876543210'')) crossed))) =
     (200, Msg (asc ''Password updated successfully''))"
  by (simp add: crossed_def shadow_def demo_defs send_otp_def reset_password_def Let_def
      invalid_otp_def password_updated_def)

text \<open>
  The three outcomes the protocol rests on, for a request that reaches the storage and
  whose identifier resolves to the row \<open>u\<close>: a wrong or missing code is refused and
  changes nothing; the code on file is accepted, replaces the hash and is deleted;
  \<open>send_otp\<close> answers 200 and files the new code under the row's username.
\<close>

lemma reset_password_invalid:
  assumes "connects fx" "\<not> select_raises fx" "find_user (users s) ident = Some u"
    and "otp_store s (username u) \<noteq> otp \<or> otp_store s (username u) = None"
  shows "reset_password fx ident otp pw s = (invalid_otp, s)"
  using assms by (auto simp add: reset_password_def Let_def dom_def)

lemma reset_password_valid:
  assumes "connects fx" "\<not> select_raises fx" "\<not> update_raises fx"
    and "find_user (users s) ident = Some u"
    and "otp_store s (username u) = Some c"
    and "generate_password_hash fx pw = Some h"
  shows "reset_password fx ident (Some c) pw s =
     (password_updated,
      s\<lparr>users := update_password_hash h (username u) (users s),
        otp_store := (otp_store s)(username u := None)\<rparr>)"
  using assms by (auto simp add: reset_password_def Let_def dom_def)

lemma send_otp_found:
  assumes "connects fx" "\<not> select_raises fx" "find_user (users s) ident = Some u"
  shows "fst (fst (send_otp fx ident s)) = 200"
    and "snd (send_otp fx ident s) = s\<lparr>otp_store := (otp_store s)(username u \<mapsto> str_nat (randint fx))\<rparr>"
  using assms by (auto simp add: send_otp_def Let_def split: sms.splits)

text \<open>
  Two outcomes outside the claims below, recorded for the reader: when the hash function
  raises (as werkzeug does for a request without \<open>new_password\<close>) the handler answers
  500 and the code stays on file; when \<open>check_password_hash\<close> raises for a registered
  user (as it does for a request without \<open>password\<close>), \<open>login\<close> answers 500.
\<close>

lemma reset_password_hash_raises:
  assumes "connects fx" "\<not> select_raises fx" "find_user (users s) ident = Some u"
    and "otp_store s (username u) = Some c"
    and "generate_password_hash fx pw = None"
  shows "reset_password fx ident (Some c) pw s =
     ((500, Msg (asc ''Failed to reset password'')), s)"
  using assms by (auto simp add: reset_password_def Let_def dom_def)

lemma login_check_raises:
  assumes "connects fx" "\<not> select_raises fx" "select_by_username (users s) name = Some usr"
    and "check_password_hash fx (password_hash usr) pw = None"
  shows "login fx name pw s = (500, Msg (asc ''Login failed''))"
  using assms by (simp add: login_def)

text \<open>
  Claim C1. Let the identifiers \<open>ident1\<close>, \<open>ident2\<close>, \<open>ident3\<close> (username, email or
  mobile) resolve to the registered user \<open>u\<close>, and let the storage answer during the three
  requests. Then \<open>send_otp\<close> answers 200; \<open>reset_password\<close> with the code just issued,
  \<open>str(randint)\<close>, answers 200 "Password updated successfully", the row of \<open>u\<close> now
  carries the new hash \<open>h\<close>, and the entry of \<open>u\<close> is gone from \<open>otp_store\<close>; a second
  \<open>reset_password\<close> with the same code answers 400 "Invalid or expired OTP" and changes
  nothing.
\<close>

theorem otp_reset_roundtrip_single_use:
  assumes "find_user (users s) ident1 = Some u"
    and "find_user (users s) ident2 = Some u"
    and "find_user (users s) ident3 = Some u"
    and "connects fx1 \<and> \<not> select_raises fx1"
    and "connects fx2 \<and> \<not> select_raises fx2 \<and> \<not> update_raises fx2"
    and "generate_password_hash fx2 new_password = Some h"
    and "connects fx3 \<and> \<not> select_raises fx3"
  shows "fst (fst (send_otp fx1 ident1 s)) = 200 \<and>
     fst (reset_password fx2 ident2 (Some (str_nat (randint fx1))) new_password
            (snd (send_otp fx1 ident1 s))) = password_updated \<and>
     find_user (users (snd (reset_password fx2 ident2 (Some (str_nat (randint fx1))) new_password
            (snd (send_otp fx1 ident1 s))))) ident2 = Some (u\<lparr>password_hash := h\<rparr>) \<and>
     otp_store (snd (reset_password fx2 ident2 (Some (str_nat (randint fx1))) new_password
            (snd (send_otp fx1 ident1 s)))) (username u) = None \<and>
     reset_password fx3 ident3 (Some (str_nat (randint fx1))) other_password
        (snd (reset_password fx2 ident2 (Some (str_nat (randint fx1))) new_password
            (snd (send_otp fx1 ident1 s)))) =
       (invalid_otp, snd (reset_password fx2 ident2 (Some (str_nat (randint fx1))) new_password
            (snd (send_otp fx1 ident1 s))))"
proof -
  let ?code = "str_nat (randint fx1)"
  let ?s1 = "s\<lparr>otp_store := (otp_store s)(username u \<mapsto> ?code)\<rparr>"
  let ?s2 = "?s1\<lparr>users := update_password_hash h (username u) (users ?s1),
        otp_store := (otp_store ?s1)(username u := None)\<rparr>"
  have sent: "fst (fst (send_otp fx1 ident1 s)) = 200" "snd (send_otp fx1 ident1 s) = ?s1"
    using assms(1,4) by (simp_all add: send_otp_found)
  have reset: "reset_password fx2 ident2 (Some ?code) new_password ?s1 = (password_updated, ?s2)"
    using assms(2,5,6) by (intro reset_password_valid [where u = u]) simp_all
  have resolved: "find_user (users ?s2) ident2 = Some (u\<lparr>password_hash := h\<rparr>)"
      "find_user (users ?s2) ident3 = Some (u\<lparr>password_hash := h\<rparr>)"
    using assms(2,3) by (simp_all add: find_user_update_password_hash)
  have again: "reset_password fx3 ident3 (Some ?code) other_password ?s2 = (invalid_otp, ?s2)"
    using assms(7) resolved(2)
    by (intro reset_password_invalid [where u = "u\<lparr>password_hash := h\<rparr>"]) simp_all
  show ?thesis
    using sent reset resolved(1) again by simp
qed


theorem otp_reset_roundtrip_single_use_witness:
  "find_user (users seeded) (Some (asc ''farmer@example.com'')) = Some farmer \<and>
   find_user (users seeded) (Some (asc ''+919876543210'')) = Some farmer \<and>
   find_user (users seeded) (Some (asc ''farmer'')) = Some farmer \<and>
   fst (fst (send_otp (calm 123456 Sms_raises) (Some (asc ''farmer@example.com'')) seeded)) = 200 \<and>
   fst (reset_password (calm 0 No_client) (Some (asc ''+919876543210'')) (Some (str_nat 123456))
          (Some (asc ''s3cret''))
          (snd (send_otp (calm 123456 Sms_raises) (Some (asc ''farmer@example.com'')) seeded))) =
     password_updated \<and>
   find_user (users (snd (reset_password (calm 0 No_client) (Some (asc ''+919876543210''))
          (Some (str_nat 123456)) (Some (asc ''s3cret''))
          (snd (send_otp (calm 123456 Sms_raises) (Some (asc ''farmer@example.com'')) seeded)))))
      (Some (asc ''+919876543210'')) = Some (farmer\<lparr>password_hash := asc ''plain$s3cret''\<rparr>) \<and>
   fst (reset_password (calm 7 Sent) (Some (asc ''farmer'')) (Some (str_nat 123456))
          (Some (asc ''again''))
          (snd (reset_password (calm 0 No_client) (Some (asc ''+919876543210''))
             (Some (str_nat 123456)) (Some (asc ''s3cret''))
             (snd (send_otp (calm 123456 Sms_raises) (Some (asc ''farmer@example.com'')) seeded))))) =
     invalid_otp"
  using otp_reset_roundtrip_single_use [of seeded "Some (asc ''farmer@example.com'')" farmer
      "Some (asc ''+919876543210'')" "Some (asc ''farmer'')" "calm 123456 Sms_raises"
      "calm 0 No_client" "Some (asc ''s3cret'')" "asc ''plain$s3cret''" "calm 7 Sent"
      "Some (asc ''again'')"]
  by (simp add: demo_defs)


text \<open>
  Claim C2. For a resolved user and any submitted code (also none at all): if
  \<open>otp_store\<close> has no entry for the user, or the entry differs from the submitted code,
  \<open>reset_password\<close> answers 400 "Invalid or expired OTP" and leaves the whole state, hence
  the user's password hash, as it was.
\<close>

theorem reset_password_rejects_wrong_otp:
  assumes "connects fx \<and> \<not> select_raises fx"
    and "find_user (users s) ident = Some u"
    and "otp_store s (username u) = None \<or> otp_store s (username u) \<noteq> otp"
  shows "reset_password fx ident otp new_password s =
           ((400, Msg (asc ''Invalid or expired OTP'')), s)"
  using assms reset_password_invalid [of fx s ident u otp new_password]
  by (auto simp add: invalid_otp_def)

theorem reset_password_rejects_wrong_otp_witness:
  "find_user (users issued) (Some (asc ''farmer'')) = Some farmer \<and>
   otp_store issued (username farmer) \<noteq> Some (asc ''654321'') \<and>
   reset_password (calm 0 No_client) (Some (asc ''farmer'')) (Some (asc ''654321''))
      (Some (asc ''s3cret'')) issued = ((400, Msg (asc ''Invalid or expired OTP'')), issued) \<and>
   find_user (users seeded) (Some (asc ''analyst'')) \<noteq> None \<and>
   reset_password (calm 0 No_client) (Some (asc ''analyst'')) None
      (Some (asc ''s3cret'')) seeded = ((400, Msg (asc ''Invalid or expired OTP'')), seeded)"
  using reset_password_rejects_wrong_otp [of "calm 0 No_client" issued "Some (asc ''farmer'')"
      farmer "Some (asc ''654321'')" "Some (asc ''s3cret'')"]
    reset_password_rejects_wrong_otp [of "calm 0 No_client" seeded "Some (asc ''analyst'')"
      "hd (tl (users seeded))" None "Some (asc ''s3cret'')"]
  by (simp add: demo_defs issued_def)

text \<open>
  Claim C3, as stated, fails when \<open>random.randint\<close> draws the same number twice: two
  codes are issued for \<open>farmer\<close>, both 123456, and the first code is still accepted
  after the second was issued.
\<close>

theorem repeated_code_old_otp_accepted:
  "fst (reset_password (calm 0 No_client) (Some (asc ''farmer'')) (Some (str_nat 123456))
     (Some (asc ''s3cret''))
     (snd (send_otp (calm 123456 No_client) (Some (asc ''farmer''))
        (snd (send_otp (calm 123456 No_client) (Some (asc ''farmer'')) seeded))))) =
   (200, Msg (asc ''Password updated successfully''))"
  by (simp add: demo_defs send_otp_def reset_password_def password_updated_def Let_def)

text \<open>
  Claim C3, amended. \<open>otp_store\<close> is a dictionary, so it holds at most one code per
  username, and issuing a second code overwrites the first: after two \<open>send_otp\<close> requests
  for the same user the entry is the second code, and \<open>reset_password\<close> with the first
  code answers 400, provided the second draw differs from the first.
\<close>

theorem second_otp_invalidates_first:
  assumes "find_user (users s) ident1 = Some u"
    and "find_user (users s) ident2 = Some u"
    and "find_user (users s) ident3 = Some u"
    and "connects fx1 \<and> \<not> select_raises fx1"
    and "connects fx2 \<and> \<not> select_raises fx2"
    and "connects fx3 \<and> \<not> select_raises fx3"
    and "randint fx2 \<noteq> randint fx1"
  shows "otp_store (snd (send_otp fx2 ident2 (snd (send_otp fx1 ident1 s)))) (username u) =
           Some (str_nat (randint fx2)) \<and>
         reset_password fx3 ident3 (Some (str_nat (randint fx1))) new_password
           (snd (send_otp fx2 ident2 (snd (send_otp fx1 ident1 s)))) =
           ((400, Msg (asc ''Invalid or expired OTP'')),
            snd (send_otp fx2 ident2 (snd (send_otp fx1 ident1 s))))"
proof -
  let ?s1 = "s\<lparr>otp_store := (otp_store s)(username u \<mapsto> str_nat (randint fx1))\<rparr>"
  let ?s2 = "?s1\<lparr>otp_store := (otp_store ?s1)(username u \<mapsto> str_nat (randint fx2))\<rparr>"
  have first: "snd (send_otp fx1 ident1 s) = ?s1"
    using assms(1,4) by (simp add: send_otp_found)
  have "find_user (users ?s1) ident2 = Some u"
    using assms(2) by simp
  then have second: "snd (send_otp fx2 ident2 ?s1) = ?s2"
    using assms(5) by (simp add: send_otp_found)
  have "otp_store ?s2 (username u) \<noteq> Some (str_nat (randint fx1))"
    using assms(7) by (simp add: str_nat_inject)
  then have "reset_password fx3 ident3 (Some (str_nat (randint fx1))) new_password ?s2 =
      (invalid_otp, ?s2)"
    using assms(3,6) by (intro reset_password_invalid [where u = u]) simp_all
  then show ?thesis
    using first second by (simp add: invalid_otp_def)
qed

theorem second_otp_invalidates_first_witness:
  "find_user (users seeded) (Some (asc ''farmer'')) = Some farmer \<and>
   find_user (users seeded) (Some (asc ''farmer@example.com'')) = Some farmer \<and>
   randint (calm 654321 Sent) \<noteq> randint (calm 123456 No_client) \<and>
   otp_store (snd (send_otp (calm 654321 Sent) (Some (asc ''farmer@example.com''))
      (snd (send_otp (calm 123456 No_client) (Some (asc ''farmer'')) seeded))))
      (asc ''farmer'') = Some (str_nat 654321) \<and>
   fst (reset_password (calm 0 No_client) (Some (asc ''farmer'')) (Some (str_nat 123456))
      (Some (asc ''s3cret''))
      (snd (send_otp (calm 654321 Sent) (Some (asc ''farmer@example.com''))
         (snd (send_otp (calm 123456 No_client) (Some (asc ''farmer'')) seeded))))) =
     (400, Msg (asc ''Invalid or expired OTP''))"
  using second_otp_invalidates_first [of seeded "Some (asc ''farmer'')" farmer
      "Some (asc ''farmer@example.com'')" "Some (asc ''farmer'')" "calm 123456 No_client"
      "calm 654321 Sent" "calm 0 No_client" "Some (asc ''s3cret'')"]
  by (simp add: demo_defs)

text \<open>
  Claim C4. Two runs of \<open>login\<close>, both reaching the storage: in the first the username
  is not registered, in the second the user exists and \<open>check_password_hash\<close> returns
  \<open>False\<close>. Both return the same response, status 401 with "Bad username or password",
  whatever the usernames, passwords and states are.
\<close>

theorem login_failure_indistinguishable:
  assumes "connects fx \<and> \<not> select_raises fx"
    and "connects fx' \<and> \<not> select_raises fx'"
    and "select_by_username (users s) name = None"
    and "select_by_username (users s') name' = Some usr"
    and "check_password_hash fx' (password_hash usr) pw' = Some False"
  shows "login fx name pw s = (401, Msg (asc ''Bad username or password'')) \<and>
         login fx' name' pw' s' = (401, Msg (asc ''Bad username or password''))"
  using assms by (simp add: login_def bad_credentials_def)

theorem login_failure_indistinguishable_witness:
  "select_by_username (users seeded) (Some (asc ''nobody'')) = None \<and>
   select_by_username (users seeded) (Some (asc ''farmer'')) = Some farmer \<and>
   check_password_hash (calm 0 No_client) (password_hash farmer) (Some (asc ''wrong'')) = Some False \<and>
   login (calm 0 No_client) (Some (asc ''nobody'')) (Some (asc ''farmer123'')) seeded =
     (401, Msg (asc ''Bad username or password'')) \<and>
   login (calm 0 No_client) (Some (asc ''farmer'')) (Some (asc ''wrong'')) seeded =
     (401, Msg (asc ''Bad username or password'')) \<and>
   login (calm 0 No_client) (Some (asc ''farmer'')) (Some (asc ''farmer123'')) seeded =
     (200, Access_token (asc ''farmer.farmer''))"
  using login_failure_indistinguishable [of "calm 0 No_client" "calm 0 No_client" seeded
      "Some (asc ''nobody'')" seeded "Some (asc ''farmer'')" farmer "Some (asc ''wrong'')"
      "Some (asc ''farmer123'')"]
  by (simp add: demo_defs login_def)

text \<open>
  Claim C8. For an identifier that resolves to a registered user and any outcome \<open>t\<close>
  of the SMS dispatch (sent, the provider raises, no provider configured), \<open>send_otp\<close>
  answers 200, the issued code is on file for the user, and a following
  \<open>reset_password\<close> with that code answers 200 "Password updated successfully".
\<close>

theorem send_otp_succeeds_whatever_sms_does:
  assumes "find_user (users s) ident = Some u"
    and "find_user (users s) ident' = Some u"
    and "connects fx \<and> \<not> select_raises fx"
    and "connects fx' \<and> \<not> select_raises fx' \<and> \<not> update_raises fx'"
    and "generate_password_hash fx' new_password = Some h"
  shows "fst (fst (send_otp (fx\<lparr>twilio_client := t\<rparr>) ident s)) = 200 \<and>
         otp_store (snd (send_otp (fx\<lparr>twilio_client := t\<rparr>) ident s)) (username u) =
           Some (str_nat (randint fx)) \<and>
         fst (reset_password fx' ident' (Some (str_nat (randint fx))) new_password
                (snd (send_otp (fx\<lparr>twilio_client := t\<rparr>) ident s))) =
           (200, Msg (asc ''Password updated successfully''))"
proof -
  let ?fx = "fx\<lparr>twilio_client := t\<rparr>"
  let ?s1 = "s\<lparr>otp_store := (otp_store s)(username u \<mapsto> str_nat (randint fx))\<rparr>"
  have sent: "fst (fst (send_otp ?fx ident s)) = 200" "snd (send_otp ?fx ident s) = ?s1"
    using assms(1,3) send_otp_found [of ?fx s ident u] by simp_all
  have "fst (reset_password fx' ident' (Some (str_nat (randint fx))) new_password ?s1) =
      password_updated"
    using assms(2,4,5)
      reset_password_valid [of fx' ?s1 ident' u "str_nat (randint fx)" new_password h]
    by simp
  then show ?thesis
    using sent by (simp add: password_updated_def)
qed

theorem send_otp_succeeds_whatever_sms_does_witness:
  "find_user (users seeded) (Some (asc ''+919876543210'')) = Some farmer \<and>
   fst (send_otp (calm 481516 Sent) (Some (asc ''+919876543210'')) seeded) =
     (200, Msg (asc ''OTP sent successfully to your mobile.'')) \<and>
   fst (send_otp (calm 481516 Sms_raises) (Some (asc ''+919876543210'')) seeded) =
     (200, Msg (asc ''Could not send SMS. For development, please check server console for OTP.'')) \<and>
   fst (send_otp (calm 481516 No_client) (Some (asc ''+919876543210'')) seeded) =
     (200, Msg (asc ''OTP generated. For development, please check server console.'')) \<and>
   otp_store (snd (send_otp (calm 481516 Sms_raises) (Some (asc ''+919876543210'')) seeded))
     (asc ''farmer'') = Some (str_nat 481516) \<and>
   fst (reset_password (calm 0 No_client) (Some (asc ''farmer'')) (Some (str_nat 481516))
          (Some (asc ''s3cret''))
          (snd (send_otp (calm 481516 Sms_raises) (Some (asc ''+919876543210'')) seeded))) =
     (200, Msg (asc ''Password updated successfully''))"
  using send_otp_succeeds_whatever_sms_does [of seeded "Some (asc ''+919876543210'')" farmer
      "Some (asc ''farmer'')" "calm 481516 Sent" "calm 0 No_client" "Some (asc ''s3cret'')"
      "asc ''plain$s3cret''" Sms_raises]
  by (simp add: demo_defs send_otp_def)

text \<open>
  Claim C10. For a user with the code \<open>code\<close> on file, a \<open>reset_password\<close> attempt with
  anything else answers 400 and leaves the state unchanged, so the code is still on file,
  and the next attempt with \<open>code\<close> answers 200 "Password updated successfully".
\<close>

theorem failed_reset_keeps_otp:
  assumes "find_user (users s) ident = Some u"
    and "find_user (users s) ident' = Some u"
    and "otp_store s (username u) = Some code"
    and "wrong \<noteq> Some code"
    and "connects fx \<and> \<not> select_raises fx"
    and "connects fx' \<and> \<not> select_raises fx' \<and> \<not> update_raises fx'"
    and "generate_password_hash fx' new_password = Some h"
  shows "reset_password fx ident wrong any_password s =
           ((400, Msg (asc ''Invalid or expired OTP'')), s) \<and>
         otp_store (snd (reset_password fx ident wrong any_password s)) (username u) = Some code \<and>
         fst (reset_password fx' ident' (Some code) new_password
                (snd (reset_password fx ident wrong any_password s))) =
           (200, Msg (asc ''Password updated successfully''))"
proof -
  have failed: "reset_password fx ident wrong any_password s = (invalid_otp, s)"
    using assms(1,3,4,5) by (intro reset_password_invalid [where u = u]) auto
  have "fst (reset_password fx' ident' (Some code) new_password s) = password_updated"
    using assms(2,3,6,7) reset_password_valid [of fx' s ident' u code new_password h]
    by simp
  then show ?thesis
    using failed assms(3) by (simp add: invalid_otp_def password_updated_def)
qed

theorem failed_reset_keeps_otp_witness:
  "find_user (users issued) (Some (asc ''farmer'')) = Some farmer \<and>
   otp_store issued (username farmer) = Some (asc ''123456'') \<and>
   reset_password (calm 0 No_client) (Some (asc ''farmer'')) (Some (asc ''000000''))
      (Some (asc ''s3cret'')) issued = ((400, Msg (asc ''Invalid or expired OTP'')), issued) \<and>
   fst (reset_password (calm 0 No_client) (Some (asc ''farmer@example.com'')) (Some (asc ''123456''))
      (Some (asc ''s3cret''))
      (snd (reset_password (calm 0 No_client) (Some (asc ''farmer'')) (Some (asc ''000000''))
         (Some (asc ''s3cret'')) issued))) = (200, Msg (asc ''Password updated successfully''))"
  using failed_reset_keeps_otp [of issued "Some (asc ''farmer'')" farmer
      "Some (asc ''farmer@example.com'')" "asc ''123456''" "Some (asc ''000000'')"
      "calm 0 No_client" "calm 0 No_client" "Some (asc ''s3cret'')" "asc ''plain$s3cret''"
      "Some (asc ''s3cret'')"]
  by (simp add: demo_defs issued_def reset_password_def invalid_otp_def password_updated_def
      update_password_hash_def)

section \<open>The chatbot: facts\<close>

lemmas char_defs = asc_def plain_def caseless_def ascii_lower_def ascii_upper_def

lemma py_in_iff_sublist: "py_in k s \<longleftrightarrow> sublist k s"
  by (induction s) (simp_all add: sublist_Cons_right)

lemma py_round_bounds:
  "real_of_int (py_round x) \<le> x + 1/2 \<and> x - 1/2 \<le> real_of_int (py_round x)"
  unfolding py_round_def Let_def by (auto; linarith)

lemma group_thousands_small: "n < 1000 \<Longrightarrow> group_thousands n = str_nat n"
  by (rule trans [OF group_thousands.simps]) simp

lemma group_thousands_large:
  "1000 \<le> n \<Longrightarrow>
   group_thousands n = group_thousands (n div 1000) @ [44] @ three_digits (n mod 1000)"
  by (rule trans [OF group_thousands.simps]) simp

lemma str_nat_digit: "n < 10 \<Longrightarrow> str_nat n = [48 + n]"
  by (rule trans [OF str_nat.simps]) simp

lemma format_comma_2f_four_digits:
  assumes "1000 \<le> p" "p < 10000"
  shows "format_comma_2f p =
    [48 + nat p div 1000, 44] @ three_digits (nat p mod 1000) @ asc ''.00''"
proof -
  have "group_thousands (nat p) = group_thousands (nat p div 1000) @ [44] @ three_digits (nat p mod 1000)"
    using assms by (intro group_thousands_large) simp
  moreover have "nat p div 1000 < 10"
    using assms by simp
  ultimately show ?thesis
    using assms by (simp add: format_comma_2f_def group_thousands_small str_nat_digit)
qed

lemma chat_rules_wheat:
  "chat_rules uc (asc ''what is the price of wheat in mumbai'') (asc ''en'') rnd =
   Inr (asc ''The current simulated price for Wheat in Mumbai is around '' @ [8377] @
        format_comma_2f (average_price
          (fst (get_price_prediction uc (asc ''wheat'') (asc ''Mumbai'') 7 rnd))) @
        asc ''/quintal. The trend is positive.'', True)"
proof -
  let ?q = "asc ''what is the price of wheat in mumbai''"
  have g: "\<not> any_in greeting_keywords ?q"
    by (simp add: any_in_def greeting_keywords_def asc_def)
  have c: "find_commodity ?q = Some (asc ''wheat'')"
    by (simp add: find_commodity_def commodity_keywords_def any_in_def asc_def)
  have m: "find_market uc ?q = asc ''Mumbai''"
    by (simp add: find_market_def MARKET_KEYWORDS_def py_capitalize_def char_defs)
  have k: "map_of commodity_keywords (asc ''wheat'') =
      Some [asc ''wheat'', [2327, 2375, 2361, 2370, 2306], [3223, 3275, 3239, 3263]]"
    by (simp add: commodity_keywords_def asc_def)
  have d: "py_capitalize uc (asc ''wheat'') = asc ''Wheat''"
    by (simp add: py_capitalize_def char_defs)
  have r: "responses_for (asc ''en'') = responses_en"
    by (simp add: responses_for_def chat_responses_def asc_def)
  have l: "asc ''en'' \<noteq> asc ''kn''" "asc ''en'' \<noteq> asc ''hi''"
    by (simp_all add: asc_def)
  have f: "py_format (responses_en Price_detail)
     [(asc ''commodity'', c), (asc ''market'', m), (asc ''price'', p)] =
   Inr (asc ''The current simulated price for '' @ c @ asc '' in '' @ m @ asc '' is around '' @
        [8377] @ p @ asc ''/quintal. The trend is positive.'')" for c m p
    by (simp add: py_format_def asc_def responses_en.simps)
  show ?thesis
    unfolding chat_rules_def Let_def
    by (simp only: g c m k d r l f if_False option.case map_sum.simps id_apply append_assoc)
      (simp add: asc_def)
qed


lemma price_wheat_mumbai:
  "average_price (fst (get_price_prediction uc (asc ''wheat'') (asc ''Mumbai'') 7 rnd)) =
   py_round ((2200 + 7 * uniform (-5) 10 (shd rnd)) * 1.05)"
  by (simp add: get_price_prediction_def base_price_of_def base_prices_def py_lower_def
      char_defs Let_def)

lemma price_wheat_mumbai_range:
  assumes "0 \<le> shd rnd" "shd rnd \<le> 1"
  shows "2273 \<le> py_round ((2200 + 7 * uniform (-5) 10 (shd rnd)) * 1.05) \<and>
         py_round ((2200 + 7 * uniform (-5) 10 (shd rnd)) * 1.05) \<le> 2384"
proof -
  define y where "y = (2200 + 7 * uniform (-5) 10 (shd rnd)) * 1.05"
  have y: "9093 / 4 \<le> y" "y \<le> 4767 / 2"
    using assms by (simp_all add: y_def uniform_def)
  have r: "real_of_int (py_round y) \<le> y + 1/2" "y - 1/2 \<le> real_of_int (py_round y)"
    using py_round_bounds [of y] by simp_all
  have "real_of_int 2272 < real_of_int (py_round y)"
    using y(1) r(2) by linarith
  moreover have "real_of_int (py_round y) < real_of_int 2385"
    using y(2) r(1) by linarith
  ultimately have "2272 < py_round y" "py_round y < 2385"
    by (simp_all only: of_int_less_iff)
  then show ?thesis
    unfolding y_def by linarith
qed

text \<open>
  Claim C7. For every collaborator, case table and random source, the query
  "what is the price of wheat in mumbai" with language \<open>en\<close> is answered with status 200
  and the English price-detail template, filled with "Wheat", "Mumbai" and the average
  price \<open>get_price_prediction\<close> gives for wheat in Mumbai at the horizon of 7 days, that
  is \<open>round((2200 + 7 * uniform(-5, 10)) * 1.05)\<close>, formatted by \<open>{price:,.2f}\<close>. When
  the draw lies in the unit interval the price has four digits with leading digit 2, so
  the text reads "2," followed by three digits and ".00".
\<close>

theorem wheat_in_mumbai_price_detail:
  "handle_chat uc gm (Some (asc ''what is the price of wheat in mumbai'')) (Some (asc ''en'')) rnd =
     Inr (200, asc ''The current simulated price for Wheat in Mumbai is around '' @ [8377] @
        format_comma_2f (average_price
          (fst (get_price_prediction uc (asc ''wheat'') (asc ''Mumbai'') 7 rnd))) @
        asc ''/quintal. The trend is positive.'') \<and>
   average_price (fst (get_price_prediction uc (asc ''wheat'') (asc ''Mumbai'') 7 rnd)) =
     py_round ((2200 + 7 * uniform (-5) 10 (shd rnd)) * 1.05) \<and>
   (0 \<le> shd rnd \<and> shd rnd \<le> 1 \<longrightarrow>
      format_comma_2f (average_price
          (fst (get_price_prediction uc (asc ''wheat'') (asc ''Mumbai'') 7 rnd))) =
        asc ''2,'' @
        three_digits (nat (average_price
          (fst (get_price_prediction uc (asc ''wheat'') (asc ''Mumbai'') 7 rnd))) mod 1000) @
        asc ''.00'')"
proof -
  let ?q = "asc ''what is the price of wheat in mumbai''"
  let ?p = "average_price (fst (get_price_prediction uc (asc ''wheat'') (asc ''Mumbai'') 7 rnd))"
  have "py_lower uc ?q = ?q"
    by (simp add: py_lower_def char_defs)
  then have "handle_chat uc gm (Some ?q) (Some (asc ''en'')) rnd =
     Inr (200, asc ''The current simulated price for Wheat in Mumbai is around '' @ [8377] @
        format_comma_2f ?p @ asc ''/quintal. The trend is positive.'')"
    by (simp add: handle_chat_def query_of_def lang_of_def chat_rules_wheat)
  moreover have "format_comma_2f ?p = asc ''2,'' @ three_digits (nat ?p mod 1000) @ asc ''.00''"
    if "0 \<le> shd rnd \<and> shd rnd \<le> 1"
  proof -
    have range: "2273 \<le> ?p" "?p \<le> 2384"
      using that price_wheat_mumbai_range [of rnd] by (simp_all add: price_wheat_mumbai)
    then have "nat ?p div 1000 = 2"
      by simp
    then show ?thesis
      using range format_comma_2f_four_digits [of ?p] by (simp add: asc_def)
  qed
  ultimately show ?thesis
    using price_wheat_mumbai [of uc rnd] by blast
qed

lemma format_comma_2f_2328: "format_comma_2f 2328 = asc ''2,328.00''"
  by (simp add: format_comma_2f_four_digits three_digits_def asc_def)

theorem wheat_in_mumbai_price_detail_witness:
  "shd (sconst (1/2 :: real)) = 1/2 \<and>
   handle_chat latin gemini_off (Some (asc ''what is the price of wheat in mumbai''))
     (Some (asc ''en'')) (sconst (1/2)) =
     Inr (200, asc ''The current simulated price for Wheat in Mumbai is around '' @ [8377] @
        asc ''2,328.00'' @ asc ''/quintal. The trend is positive.'')"
proof -
  let ?p = "average_price
    (fst (get_price_prediction latin (asc ''wheat'') (asc ''Mumbai'') 7 (sconst (1/2))))"
  note inst = wheat_in_mumbai_price_detail [of latin gemini_off "sconst (1/2)"]
  have "?p = py_round ((2200 + 7 * uniform (-5) 10 (shd (sconst (1/2)))) * 1.05)"
    using inst by blast
  also have "\<dots> = 2328"
    by (simp add: py_round_def uniform_def Let_def)
  finally have "?p = 2328" .
  then show ?thesis
    using inst by (simp add: format_comma_2f_2328)
qed

lemma responses_for_hi: "responses_for (asc ''hi'') = responses_hi"
  by (simp add: responses_for_def chat_responses_def asc_def)

lemma responses_for_cases:
  "responses_for lang = responses_en \<or> responses_for lang = responses_hi \<or>
   responses_for lang = responses_kn"
  by (simp add: responses_for_def chat_responses_def)

lemma py_format_price_detail:
  "\<exists>text. py_format (responses_for lang Price_detail)
     [(asc ''commodity'', c), (asc ''market'', m), (asc ''price'', p)] = Inr text"
  using responses_for_cases [of lang]
  by (elim disjE)
    (simp_all add: py_format_def asc_def responses_en.simps responses_hi.simps responses_kn.simps)

lemma find_commodity_key:
  assumes "find_commodity q = Some c"
  shows "\<exists>keywords. map_of commodity_keywords c = Some keywords"
proof -
  from assms obtain kws i where "i < length commodity_keywords" "commodity_keywords ! i = (c, kws)"
    by (auto simp add: find_commodity_def find_Some_iff)
  then have "(c, kws) \<in> set commodity_keywords"
    by (metis nth_mem)
  then show ?thesis
    by (rule weak_map_of_SomeI)
qed

lemma chat_rules_greeting:
  "any_in greeting_keywords q \<Longrightarrow>
   chat_rules uc q lang rnd = Inr (responses_for lang Greeting, True)"
  by (simp add: chat_rules_def)

lemma chat_rules_commodity:
  assumes "\<not> any_in greeting_keywords q" and "find_commodity q = Some c"
  shows "\<exists>text. chat_rules uc q lang rnd = Inr (text, True)"
proof -
  obtain kws where kws: "map_of commodity_keywords c = Some kws"
    using assms(2) find_commodity_key by blast
  define shown where "shown =
    (if (if lang = asc ''kn'' then 2 else if lang = asc ''hi'' then 1 else (- 1 :: int)) \<noteq> - 1 \<and>
        (if lang = asc ''kn'' then 2 else if lang = asc ''hi'' then 1 else (- 1 :: int))
          < int (length kws)
     then py_capitalize uc
       (kws ! nat (if lang = asc ''kn'' then 2 else if lang = asc ''hi'' then 1 else (- 1 :: int)))
     else py_capitalize uc c)"
  obtain out where "py_format (responses_for lang Price_detail)
      [(asc ''commodity'', shown), (asc ''market'', find_market uc q),
       (asc ''price'', format_comma_2f
          (average_price (fst (get_price_prediction uc c (find_market uc q) 7 rnd))))] = Inr out"
    using py_format_price_detail by blast
  then have "chat_rules uc q lang rnd = Inr (out, True)"
    unfolding chat_rules_def Let_def shown_def
    by (simp only: assms kws if_False option.case map_sum.simps id_apply)
  then show ?thesis
    by blast
qed

lemma chat_rules_buckets:
  assumes "\<not> any_in greeting_keywords q" and "find_commodity q = None"
  shows "chat_rules uc q lang rnd =
    (if any_in price_keywords q then Inr (responses_for lang Price, True)
     else if any_in weather_keywords q then Inr (responses_for lang Weather, True)
     else if any_in recommend_keywords q then Inr (responses_for lang Recommend, True)
     else Inr (responses_for lang Default, False))"
  unfolding chat_rules_def Let_def
  by (simp only: assms if_False option.case)

lemma chat_rules_total: "\<exists>text matched. chat_rules uc q lang rnd = Inr (text, matched)"
proof (cases "any_in greeting_keywords q")
  case True
  then show ?thesis
    using chat_rules_greeting by blast
next
  case False
  show ?thesis
  proof (cases "find_commodity q")
    case None
    show ?thesis
      unfolding chat_rules_buckets [OF False None] by auto
  next
    case (Some c)
    then show ?thesis
      using chat_rules_commodity [OF False Some] by blast
  qed
qed

lemma rule_matched_False_iff:
  "chat_rules uc q lang rnd = Inr (text, False) \<longleftrightarrow>
   text = responses_for lang Default \<and>
   \<not> any_in greeting_keywords q \<and> find_commodity q = None \<and> \<not> any_in price_keywords q \<and>
   \<not> any_in weather_keywords q \<and> \<not> any_in recommend_keywords q"
proof (cases "any_in greeting_keywords q")
  case True
  then show ?thesis
    by (simp add: chat_rules_greeting)
next
  case False
  show ?thesis
  proof (cases "find_commodity q")
    case None
    show ?thesis
      unfolding chat_rules_buckets [OF False None] using False None by auto
  next
    case (Some c)
    then show ?thesis
      using chat_rules_commodity [OF False Some, of uc lang rnd] by auto
  qed
qed

lemma chat_rules_unmatched:
  assumes "chat_rules uc q lang rnd = Inr (text, False)"
  shows "text = responses_for lang Default"
  using assms by (simp add: rule_matched_False_iff)

text \<open>
  Claim C6, as stated, fails: the query "namaste" in Latin script contains none of the
  greeting keywords (hello, hi, and the Kannada and Devanagari spellings), no commodity
  and no other keyword, so with the collaborator switched off the answer in language
  \<open>hi\<close> is the Hindi default response, which is not the Hindi greeting.
\<close>

theorem namaste_latin_gets_default:
  "handle_chat latin gemini_off (Some (asc ''namaste'')) (Some (asc ''hi'')) (sconst 0) =
     Inr (200, responses_hi Default) \<and>
   responses_hi Default \<noteq> responses_hi Greeting"
proof -
  have differ: "responses_hi Default \<noteq> responses_hi Greeting"
    by (simp add: responses_hi.simps)
  have "py_lower latin (asc ''namaste'') = asc ''namaste''"
    by (simp add: py_lower_def char_defs)
  moreover have "chat_rules latin (asc ''namaste'') (asc ''hi'') (sconst 0) =
      Inr (responses_hi Default, False)"
    unfolding rule_matched_False_iff responses_for_hi
    by (simp add: any_in_def find_commodity_def greeting_keywords_def commodity_keywords_def
        price_keywords_def weather_keywords_def recommend_keywords_def asc_def)
  ultimately show ?thesis
    using differ
    by (simp add: handle_chat_def Let_def query_of_def lang_of_def gemini_off_def responses_for_hi)
qed

text \<open>
  Claim C6, amended. The query spelled in Devanagari, the code points
  U+0928 U+092E U+0938 U+094D U+0924 U+0947 of the keyword list, with language \<open>hi\<close>
  yields the Hindi greeting, whatever the collaborator does. The Latin spelling "namaste"
  yields the Hindi default response whenever the collaborator is disabled or raises.
\<close>

theorem namaste_devanagari_greeting:
  "handle_chat uc gm (Some namaste) (Some (asc ''hi'')) rnd = Inr (200, responses_hi Greeting) \<and>
   (\<not> GEMINI_ENABLED gm \<or>
    send_message gm (system_prompt (asc ''hi'')) (responses_hi Greeting) (asc ''namaste'') = None
    \<longrightarrow> handle_chat uc gm (Some (asc ''namaste'')) (Some (asc ''hi'')) rnd =
          Inr (200, responses_hi Default))"
proof -
  have "py_lower uc namaste = namaste"
    by (simp add: py_lower_def namaste_def char_defs)
  moreover have "any_in greeting_keywords namaste"
    by (simp add: any_in_def greeting_keywords_def namaste_def asc_def)
  ultimately have first: "handle_chat uc gm (Some namaste) (Some (asc ''hi'')) rnd =
      Inr (200, responses_hi Greeting)"
    by (simp add: handle_chat_def Let_def query_of_def lang_of_def chat_rules_def responses_for_hi)
  have "py_lower uc (asc ''namaste'') = asc ''namaste''"
    by (simp add: py_lower_def char_defs)
  moreover have "chat_rules uc (asc ''namaste'') (asc ''hi'') rnd =
      Inr (responses_hi Default, False)"
    unfolding rule_matched_False_iff responses_for_hi
    by (simp add: any_in_def find_commodity_def greeting_keywords_def commodity_keywords_def
        price_keywords_def weather_keywords_def recommend_keywords_def asc_def)
  ultimately have second: "handle_chat uc gm (Some (asc ''namaste'')) (Some (asc ''hi'')) rnd =
      Inr (200, responses_hi Default)"
    if "\<not> GEMINI_ENABLED gm \<or>
      send_message gm (system_prompt (asc ''hi'')) (responses_hi Greeting) (asc ''namaste'') = None"
    using that
    by (auto simp add: handle_chat_def Let_def query_of_def lang_of_def responses_for_hi)
  show ?thesis
    using first second by blast
qed

theorem namaste_devanagari_greeting_witness:
  "handle_chat latin gemini_down (Some namaste) (Some (asc ''hi'')) (sconst 0) =
     Inr (200, responses_hi Greeting) \<and>
   send_message gemini_down (system_prompt (asc ''hi'')) (responses_hi Greeting)
     (asc ''namaste'') = None \<and>
   handle_chat latin gemini_down (Some (asc ''namaste'')) (Some (asc ''hi'')) (sconst 0) =
     Inr (200, responses_hi Default)"
  using namaste_devanagari_greeting [of latin gemini_down "sconst 0"]
  by (simp add: gemini_down_def)

text \<open>
  Claim C9. If \<open>rule_matched\<close> is false after the rules, and the collaborator is disabled
  or its call raises, \<open>handle_chat\<close> answers 200 with the default response of the
  request's language. And for every request, collaborator and random source the handler
  answers 200 with some text: no exception leaves it.
\<close>

theorem chat_fallback_never_raises:
  assumes "chat_rules uc (py_lower uc (query_of req_query)) (lang_of req_lang) rnd =
             Inr (text, False)"
    and "\<not> GEMINI_ENABLED gm \<or>
         send_message gm (system_prompt (lang_of req_lang))
           (responses_for (lang_of req_lang) Greeting) (py_lower uc (query_of req_query)) = None"
  shows "handle_chat uc gm req_query req_lang rnd =
           Inr (200, responses_for (lang_of req_lang) Default) \<and>
         (\<exists>response_text. handle_chat uc' gm' req_query' req_lang' rnd' =
            Inr (200, response_text))"
proof -
  have "text = responses_for (lang_of req_lang) Default"
    using assms(1) by (rule chat_rules_unmatched)
  then have "handle_chat uc gm req_query req_lang rnd =
      Inr (200, responses_for (lang_of req_lang) Default)"
    using assms by (auto simp add: handle_chat_def Let_def)
  moreover have "\<exists>response_text. handle_chat uc' gm' req_query' req_lang' rnd' =
      Inr (200, response_text)"
    using chat_rules_total [of uc' "py_lower uc' (query_of req_query')" "lang_of req_lang'" rnd']
    by (auto simp add: handle_chat_def Let_def split: option.splits)
  ultimately show ?thesis
    by blast
qed

theorem chat_fallback_never_raises_witness:
  "chat_rules latin (py_lower latin (query_of (Some (asc ''Tell me a joke''))))
     (lang_of (Some (asc ''kn''))) (sconst 0) = Inr (responses_kn Default, False) \<and>
   GEMINI_ENABLED gemini_down \<and>
   send_message gemini_down (system_prompt (asc ''kn'')) (responses_kn Greeting)
     (asc ''tell me a joke'') = None \<and>
   handle_chat latin gemini_down (Some (asc ''Tell me a joke'')) (Some (asc ''kn'')) (sconst 0) =
     Inr (200, responses_kn Default) \<and>
   handle_chat latin gemini_off None None (sconst 0) = Inr (200, responses_en Default)"
proof -
  have kn: "responses_for (asc ''kn'') = responses_kn"
    by (simp add: responses_for_def chat_responses_def asc_def)
  have en: "responses_for (asc ''en'') = responses_en"
    by (simp add: responses_for_def chat_responses_def asc_def)
  have low: "py_lower latin (asc ''Tell me a joke'') = asc ''tell me a joke''"
      "py_lower latin [] = []"
    by (simp_all add: py_lower_def char_defs)
  have r1: "chat_rules latin (asc ''tell me a joke'') (asc ''kn'') (sconst 0) =
      Inr (responses_kn Default, False)"
    unfolding rule_matched_False_iff kn
    by (simp add: any_in_def find_commodity_def greeting_keywords_def commodity_keywords_def
        price_keywords_def weather_keywords_def recommend_keywords_def asc_def)
  have r2: "chat_rules latin [] (asc ''en'') (sconst 0) = Inr (responses_en Default, False)"
    unfolding rule_matched_False_iff en
    by (simp add: any_in_def find_commodity_def greeting_keywords_def commodity_keywords_def
        price_keywords_def weather_keywords_def recommend_keywords_def asc_def)
  show ?thesis
    using chat_fallback_never_raises [of latin "Some (asc ''Tell me a joke'')" "Some (asc ''kn'')"
        "sconst 0" "responses_kn Default" gemini_down]
      chat_fallback_never_raises [of latin None None "sconst 0" "responses_en Default" gemini_off]
    by (simp add: query_of_def lang_of_def low r1 r2 kn en gemini_down_def gemini_off_def)
qed

section \<open>The heatmap: facts\<close>

lemma py_round_of_int: "py_round (real_of_int n) = n"
  by (simp add: py_round_def)

lemma base_price_of_values:
  "base_price_of uc c \<in> {2200, 3000, 6000, 1700, 1500, 1800, 1200, 2500}"
  by (simp add: base_price_of_def base_prices_def)

lemma delhi_markup:
  "average_price (fst (get_price_prediction uc c (asc ''Delhi'') 0 rnd)) =
   py_round (real_of_int (base_price_of uc c) * 1.05)"
  by (simp add: get_price_prediction_def Let_def py_lower_def char_defs)

lemma delhi_average:
  "real_of_int (average_price (fst (get_price_prediction uc c (asc ''Delhi'') 0 rnd))) =
   1.05 * real_of_int (base_price_of uc c)"
proof -
  have "py_round (real_of_int b * 1.05) = b * 21 div 20 \<and> b * 21 mod 20 = 0"
    if "b \<in> {2200, 3000, 6000, 1700, 1500, 1800, 1200, 2500}" for b :: int
    using that by (auto simp add: py_round_def Let_def)
  then have "py_round (real_of_int (base_price_of uc c) * 1.05) = base_price_of uc c * 21 div 20"
      and "base_price_of uc c * 21 mod 20 = 0"
    using base_price_of_values [of uc c] by blast+
  then have "real_of_int (py_round (real_of_int (base_price_of uc c) * 1.05)) =
      real_of_int (base_price_of uc c * 21) / 20"
    by (simp add: real_of_int_div dvd_eq_mod_eq_0)
  then show ?thesis
    by (simp add: delhi_markup)
qed

lemma sset_stake: "x \<in> set (stake n s) \<Longrightarrow> x \<in> sset s"
  by (auto simp add: in_set_conv_nth snth_sset)

lemma sset_stl3: "x \<in> sset (stl (stl (stl s))) \<Longrightarrow> x \<in> sset s"
  by (auto dest: stl_sset)

lemma heatmap_entries:
  assumes "(st, v) \<in> set (handle_heatmap_data uc rc rnd)"
  shows "\<exists>x\<in>sset rnd. v = py_round
    (real_of_int (average_price
       (fst (get_price_prediction uc (commodity_of rc) (asc ''Delhi'') 0 rnd))) *
     uniform 0.85 1.15 x)"
proof -
  have rest: "snd (get_price_prediction uc c m d rnd) = stl (stl (stl rnd))" for c m d
    by (simp add: get_price_prediction_def Let_def)
  from assms obtain s x where "(s, x) \<in> set (zip states (stake (length states) (stl (stl (stl rnd)))))"
    and v: "v = py_round (real_of_int (average_price
       (fst (get_price_prediction uc (commodity_of rc) (asc ''Delhi'') 0 rnd))) *
     uniform 0.85 1.15 x)"
    by (auto simp add: handle_heatmap_data_def Let_def split_def rest)
  then have "x \<in> sset rnd"
    by (auto dest!: set_zip_rightD sset_stake sset_stl3)
  with v show ?thesis
    by blast
qed

lemma heatmap_nth:
  assumes "i < length states"
  shows "handle_heatmap_data uc rc rnd ! i =
    (states ! i, py_round
      (real_of_int (average_price
         (fst (get_price_prediction uc (commodity_of rc) (asc ''Delhi'') 0 rnd))) *
       uniform 0.85 1.15 (stl (stl (stl rnd)) !! i)))"
proof -
  have rest: "snd (get_price_prediction uc c m d rnd) = stl (stl (stl rnd))" for c m d
    by (simp add: get_price_prediction_def Let_def)
  show ?thesis
    using assms by (simp add: handle_heatmap_data_def Let_def split_def rest)
qed

lemma length_heatmap: "length (handle_heatmap_data uc rc rnd) = length states"
  by (simp add: handle_heatmap_data_def Let_def split_def)

text \<open>
  Claim C5, as stated, fails: for wheat, whose base price in \<open>base_prices\<close> is 2200, and
  every draw equal to 7/8, the heatmap holds the value 2570 for Andhra Pradesh, which is
  more than 15 percent above 2200.
\<close>

theorem heatmap_above_15_percent_of_base_price:
  "(asc ''Andhra Pradesh'', 2570) \<in>
     set (handle_heatmap_data latin (Some (asc ''wheat'')) (sconst (7/8))) \<and>
   base_price_of latin (asc ''wheat'') = 2200 \<and>
   1.15 * real_of_int 2200 < real_of_int 2570"
proof -
  have base: "base_price_of latin (asc ''wheat'') = 2200"
    by (simp add: base_price_of_def base_prices_def py_lower_def char_defs)
  have first: "0 < length states" "states ! 0 = asc ''Andhra Pradesh''"
    by (simp_all add: states_def)
  have "real_of_int (average_price
      (fst (get_price_prediction latin (asc ''wheat'') (asc ''Delhi'') 0 (sconst (7/8))))) = 2310"
    by (simp add: delhi_average base)
  then have "handle_heatmap_data latin (Some (asc ''wheat'')) (sconst (7/8)) ! 0 =
      (asc ''Andhra Pradesh'', 2570)"
    by (simp add: heatmap_nth [OF first(1)] first(2) commodity_of_def uniform_def py_round_def
        Let_def)
  then have "(asc ''Andhra Pradesh'', 2570) \<in>
      set (handle_heatmap_data latin (Some (asc ''wheat'')) (sconst (7/8)))"
    using first(1) nth_mem [of 0 "handle_heatmap_data latin (Some (asc ''wheat'')) (sconst (7/8))"]
    by (simp add: length_heatmap)
  then show ?thesis
    using base by simp
qed

text \<open>
  The rounding can carry a value past 15 percent of the heatmap's own base as well: for
  onion the base is 1785, and a draw of 0.9999 gives 2053, above 1.15 times 1785.
\<close>

lemma heatmap_rounding_exceeds:
  "py_round (real_of_int 1785 * uniform 0.85 1.15 (9999 / 10000)) = 2053 \<and>
   1.15 * real_of_int 1785 < real_of_int 2053"
  by (simp add: py_round_def uniform_def Let_def)

text \<open>
  Claim C5, amended. The base the heatmap scales is not the entry of \<open>base_prices\<close> but
  the average price for Delhi at horizon 0, which is 1.05 times that entry (or 1.05 times
  2500 for an unknown commodity). For every commodity and all draws in the unit interval,
  each value of the heatmap is the rounding of a price within 15 percent of that base, so
  it lies within 15 percent of 1.05 times the base price, up to the rounding error of 1/2.
\<close>

theorem heatmap_within_15_percent_of_delhi_average:
  assumes "\<forall>x\<in>sset rnd. 0 \<le> x \<and> x < 1"
    and "(st, v) \<in> set (handle_heatmap_data uc req_commodity rnd)"
  shows "real_of_int (average_price
           (fst (get_price_prediction uc (commodity_of req_commodity) (asc ''Delhi'') 0 rnd))) =
         1.05 * real_of_int (base_price_of uc (commodity_of req_commodity)) \<and>
         0.85 * (1.05 * real_of_int (base_price_of uc (commodity_of req_commodity))) - 1/2
           \<le> real_of_int v \<and>
         real_of_int v
           \<le> 1.15 * (1.05 * real_of_int (base_price_of uc (commodity_of req_commodity))) + 1/2"
proof -
  define B where "B = real_of_int (average_price
    (fst (get_price_prediction uc (commodity_of req_commodity) (asc ''Delhi'') 0 rnd)))"
  have B: "B = 1.05 * real_of_int (base_price_of uc (commodity_of req_commodity))"
    unfolding B_def by (rule delhi_average)
  have "0 \<le> B"
    using base_price_of_values [of uc "commodity_of req_commodity"] unfolding B by auto
  obtain x where x: "x \<in> sset rnd" and v: "v = py_round (B * uniform 0.85 1.15 x)"
    using heatmap_entries [OF assms(2)] unfolding B_def by blast
  have "0 \<le> x" "x < 1"
    using assms(1) x by auto
  then have u: "85 / 100 \<le> uniform 0.85 1.15 x" "uniform 0.85 1.15 x \<le> 115 / 100"
    by (simp_all add: uniform_def)
  have "B * (85 / 100) \<le> B * uniform 0.85 1.15 x"
    using u(1) \<open>0 \<le> B\<close> by (rule mult_left_mono)
  moreover have "B * uniform 0.85 1.15 x \<le> B * (115 / 100)"
    using u(2) \<open>0 \<le> B\<close> by (rule mult_left_mono)
  moreover have "real_of_int v \<le> B * uniform 0.85 1.15 x + 1/2"
      "B * uniform 0.85 1.15 x - 1/2 \<le> real_of_int v"
    unfolding v using py_round_bounds [of "B * uniform 0.85 1.15 x"] by simp_all
  ultimately have "85 / 100 * B - 1/2 \<le> real_of_int v" "real_of_int v \<le> 115 / 100 * B + 1/2"
    by linarith+
  then show ?thesis
    using B unfolding B_def by simp
qed

theorem heatmap_within_15_percent_of_delhi_average_witness:
  "sset (sconst (7/8 :: real)) = {7/8} \<and>
   (asc ''Andhra Pradesh'', 2570) \<in>
     set (handle_heatmap_data latin (Some (asc ''wheat'')) (sconst (7/8))) \<and>
   real_of_int (average_price
     (fst (get_price_prediction latin (asc ''wheat'') (asc ''Delhi'') 0 (sconst (7/8))))) =
     1.05 * real_of_int 2200 \<and>
   0.85 * (1.05 * real_of_int 2200) - 1/2 \<le> real_of_int 2570 \<and>
   real_of_int 2570 \<le> 1.15 * (1.05 * real_of_int 2200) + 1/2"
proof -
  have base: "base_price_of latin (asc ''wheat'') = 2200"
    by (simp add: base_price_of_def base_prices_def py_lower_def char_defs)
  have first: "0 < length states" "states ! 0 = asc ''Andhra Pradesh''"
    by (simp_all add: states_def)
  have "real_of_int (average_price
      (fst (get_price_prediction latin (asc ''wheat'') (asc ''Delhi'') 0 (sconst (7/8))))) = 2310"
    by (simp add: delhi_average base)
  then have "handle_heatmap_data latin (Some (asc ''wheat'')) (sconst (7/8)) ! 0 =
      (asc ''Andhra Pradesh'', 2570)"
    by (simp add: heatmap_nth [OF first(1)] first(2) commodity_of_def uniform_def py_round_def
        Let_def)
  then have entry: "(asc ''Andhra Pradesh'', 2570) \<in>
      set (handle_heatmap_data latin (Some (asc ''wheat'')) (sconst (7/8)))"
    using first(1) nth_mem [of 0 "handle_heatmap_data latin (Some (asc ''wheat'')) (sconst (7/8))"]
    by (simp add: length_heatmap)
  show ?thesis
    using heatmap_within_15_percent_of_delhi_average [of "sconst (7/8)" "asc ''Andhra Pradesh''"
        2570 latin "Some (asc ''wheat'')"] entry base
    by (simp add: commodity_of_def)
qed

end
